theory Spec2Isabelle
  imports Main "HOL-Library.Product_Lexorder"
begin

section \<open>The relay controller of stream.py\<close>

text \<open>
  The script \<^verbatim>\<open>stream.py\<close> is run from top to bottom on every refresh. It keeps its
  state in the session (\<^verbatim>\<open>st.session_state\<close>), reads the DHT11 sensor, evaluates the
  schedule, writes the relay pin and then reacts to the buttons of the page. The model
  below passes the session explicitly through each of these operations. What the script
  prints, its toasts and its sleeps are left out: no property below speaks about them.
\<close>

subsection \<open>Data\<close>

text \<open>
  A \<^verbatim>\<open>datetime.time\<close> without time zone. Python compares two of them as the tuples
  (hour, minute, second, microsecond), that is lexicographically; the order on products
  used here is that order.
\<close>

type_synonym dt_time = "nat \<times> nat \<times> nat \<times> nat"

definition dt_time :: "nat \<Rightarrow> nat \<Rightarrow> dt_time" where
  "dt_time h m = (h, m, 0, 0)"

text \<open>
  The field \<^verbatim>\<open>status\<close> holds one of the two literals \<^verbatim>\<open>"ON"\<close> and \<^verbatim>\<open>"OFF"\<close>
  (written at lines 55, 110, 115, 160 and 169 and nowhere else), and the pin is driven
  with \<^verbatim>\<open>GPIO.LOW\<close> or \<^verbatim>\<open>GPIO.HIGH\<close>.
\<close>

datatype relay_status = ON | OFF

datatype level = LOW | HIGH

text \<open>
  The session: the dictionary \<^verbatim>\<open>relay_state\<close>, the dictionary \<^verbatim>\<open>sensor_data\<close> and the
  flag \<^verbatim>\<open>manual_override\<close>, together with the trace \<open>gpio\<close> of every level written to
  \<^verbatim>\<open>RELAY_PIN\<close> by \<^verbatim>\<open>GPIO.output\<close>, oldest first.
\<close>

record session =
  start_time :: dt_time
  end_time :: dt_time
  status :: relay_status
  temperature :: string
  humidity :: string
  manual_override :: bool
  gpio :: "level list"

text \<open>
  Lines 24 to 64: \<^verbatim>\<open>setup_gpio\<close> drives the pin HIGH, then the session is initialised.
  The process serves one session: both happen once, in the first run of the script.
  \<^verbatim>\<open>GPIO.output\<close> is taken not to fail.
\<close>

definition setup_gpio :: "level list" where
  "setup_gpio = [HIGH]"

definition initial_session :: session where
  "initial_session =
     \<lparr>start_time = dt_time 5 30, end_time = dt_time 9 30, status = OFF,
      temperature = ''N/A'', humidity = ''N/A'',
      manual_override = False, gpio = setup_gpio\<rparr>"

subsection \<open>The sensor\<close>

text \<open>
  Reading \<^verbatim>\<open>dht_device.temperature\<close> or \<^verbatim>\<open>dht_device.humidity\<close> either returns a value
  or \<^verbatim>\<open>None\<close>, or raises. An exception is a \<^verbatim>\<open>RuntimeError\<close> (or an instance of a
  subclass of it) with its tuple \<^verbatim>\<open>args\<close>, or any other \<^verbatim>\<open>Exception\<close>.
\<close>

datatype py_exception = RuntimeError "string list" | OtherException string

datatype 'v attempt = Returns "'v option" | Raises py_exception

record 'v dht =
  temperature_get :: "'v attempt"
  humidity_get :: "'v attempt"

text \<open>The exception that can leave \<^verbatim>\<open>read_sensor_data\<close>.\<close>

datatype py_error = IndexError

text \<open>
  Lines 80 to 84. The first handler prints \<^verbatim>\<open>error.args[0]\<close>; indexing an empty tuple
  raises \<^verbatim>\<open>IndexError\<close> inside the handler, which the second \<^verbatim>\<open>except\<close> clause of
  the same \<^verbatim>\<open>try\<close> does not catch.
\<close>

fun handle_exception :: "py_exception \<Rightarrow> session \<Rightarrow> py_error + session" where
  "handle_exception (RuntimeError []) s = Inl IndexError"
| "handle_exception (RuntimeError (a # as)) s = Inr s"
| "handle_exception (OtherException e) s = Inr s"

text \<open>
  Lines 68 to 84. \<open>fmt\<close> is Python's rendering of a sensor value inside an f-string;
  the degree sign is written as its two bytes in UTF-8. The device is \<open>None\<close> when
  \<^verbatim>\<open>setup_dht_sensor\<close> failed.
\<close>

fun read_sensor_data ::
  "('v \<Rightarrow> string) \<Rightarrow> 'v dht option \<Rightarrow> session \<Rightarrow> py_error + session" where
  "read_sensor_data fmt None s = Inr s"
| "read_sensor_data fmt (Some dht_device) s =
     (case temperature_get dht_device of
        Raises e \<Rightarrow> handle_exception e s
      | Returns t \<Rightarrow>
          (case humidity_get dht_device of
             Raises e \<Rightarrow> handle_exception e s
           | Returns h \<Rightarrow>
               (if t \<noteq> None \<and> h \<noteq> None
                then Inr (s\<lparr>temperature := fmt (the t) @ [CHR 0xC2, CHR 0xB0] @ ''C'',
                             humidity := fmt (the h) @ ''%''\<rparr>)
                else Inr s)))"

subsection \<open>The schedule and the tick\<close>

text \<open>Lines 97 to 105: the value of the local variable \<^verbatim>\<open>is_on_schedule\<close>.\<close>

definition is_on_schedule :: "dt_time \<Rightarrow> dt_time \<Rightarrow> dt_time \<Rightarrow> bool" where
  "is_on_schedule now start end =
     (if start > end then (if now \<ge> start \<or> now < end then True else False)
      else (if start \<le> now \<and> now < end then True else False))"

text \<open>
  Lines 86 to 116, one tick. \<open>now\<close> is what \<^verbatim>\<open>datetime.now().time()\<close> returns.
\<close>

definition check_and_control_relay :: "dt_time \<Rightarrow> session \<Rightarrow> session" where
  "check_and_control_relay now s =
     (if manual_override s then s
      else if is_on_schedule now (start_time s) (end_time s) \<and> status s = OFF
        then s\<lparr>gpio := gpio s @ [LOW], status := ON\<rparr>
      else if \<not> is_on_schedule now (start_time s) (end_time s) \<and> status s = ON
        then s\<lparr>gpio := gpio s @ [HIGH], status := OFF\<rparr>
      else s)"

subsection \<open>The buttons\<close>

text \<open>
  \<^verbatim>\<open>st.button(..., disabled=d)\<close> of the Streamlit library: the page shows a disabled
  button greyed out and it cannot be pressed, so the call returns \<^verbatim>\<open>True\<close> only for a
  button that was pressed and is not disabled. The argument \<open>disabled\<close> is the one the
  script computes when it reaches the button; the status is taken to be the one the page
  showed when the button was pressed.
\<close>

definition st_button :: "bool \<Rightarrow> bool \<Rightarrow> bool" where
  "st_button pressed disabled = (pressed \<and> \<not> disabled)"

text \<open>Lines 146 to 152: the button exists only while the override is active.\<close>

definition resume_schedule :: "bool \<Rightarrow> session \<Rightarrow> session" where
  "resume_schedule pressed s =
     (if manual_override s
      then (if st_button pressed False then s\<lparr>manual_override := False\<rparr> else s)
      else s)"

text \<open>Lines 157 to 164.\<close>

definition turn_on_now :: "bool \<Rightarrow> session \<Rightarrow> session" where
  "turn_on_now pressed s =
     (if st_button pressed (status s = ON)
      then s\<lparr>gpio := gpio s @ [LOW], status := ON, manual_override := True\<rparr>
      else s)"

text \<open>Lines 166 to 173.\<close>

definition turn_off_now :: "bool \<Rightarrow> session \<Rightarrow> session" where
  "turn_off_now pressed s =
     (if st_button pressed (status s = OFF)
      then s\<lparr>gpio := gpio s @ [HIGH], status := OFF, manual_override := True\<rparr>
      else s)"

text \<open>
  Lines 197 to 211. \<open>start_time_input\<close> and \<open>end_time_input\<close> are the values of the two
  time widgets, \<open>now\<close> the time read by the tick of line 208.
\<close>

definition update_schedule ::
  "bool \<Rightarrow> dt_time \<Rightarrow> dt_time \<Rightarrow> dt_time \<Rightarrow> session \<Rightarrow> session" where
  "update_schedule pressed start_time_input end_time_input now s =
     (if st_button pressed False
      then
        (let s1 = s\<lparr>start_time := start_time_input, end_time := end_time_input\<rparr>;
             s2 = (if manual_override s1 then s1\<lparr>manual_override := False\<rparr> else s1)
         in check_and_control_relay now s2)
      else s)"

subsection \<open>Runs of the controller\<close>

text \<open>
  What can happen to a session: a sensor read, a tick, or one of the buttons pressed.
  A sensor read that raises leaves the session as it was.
\<close>

datatype 'v event =
    SensorRead "'v dht option"
  | Tick dt_time
  | ResumeSchedule
  | ManualCommand relay_status
  | UpdateSchedule dt_time dt_time dt_time

definition manual_command :: "relay_status \<Rightarrow> session \<Rightarrow> session" where
  "manual_command x s = (case x of ON \<Rightarrow> turn_on_now True s | OFF \<Rightarrow> turn_off_now True s)"

fun step :: "('v \<Rightarrow> string) \<Rightarrow> session \<Rightarrow> 'v event \<Rightarrow> session" where
  "step fmt s (SensorRead d) =
     (case read_sensor_data fmt d s of Inl e \<Rightarrow> s | Inr s' \<Rightarrow> s')"
| "step fmt s (Tick now) = check_and_control_relay now s"
| "step fmt s ResumeSchedule = resume_schedule True s"
| "step fmt s (ManualCommand x) = manual_command x s"
| "step fmt s (UpdateSchedule a b now) = update_schedule True a b now s"

definition run :: "('v \<Rightarrow> string) \<Rightarrow> 'v event list \<Rightarrow> session \<Rightarrow> session" where
  "run fmt evs s = foldl (step fmt) s evs"

text \<open>The level the pin was last driven to, if it was driven at all.\<close>

definition pin_level :: "session \<Rightarrow> level option" where
  "pin_level s = (if gpio s = [] then None else Some (last (gpio s)))"

text \<open>The stored status matches the level of the pin: ON with LOW, OFF with HIGH.\<close>

definition status_matches_pin :: "session \<Rightarrow> bool" where
  "status_matches_pin s =
     (pin_level s = Some (case status s of ON \<Rightarrow> LOW | OFF \<Rightarrow> HIGH))"

section \<open>Properties\<close>

subsection \<open>The schedule\<close>

lemma is_on_schedule_overnight:
  "start > end \<Longrightarrow> is_on_schedule now start end = (now \<ge> start \<or> now < end)"
  by (simp add: is_on_schedule_def)

lemma is_on_schedule_same_day:
  "start \<le> end \<Longrightarrow> is_on_schedule now start end = (start \<le> now \<and> now < end)"
  by (simp add: is_on_schedule_def not_less [symmetric])

lemma tick_status:
  "\<not> manual_override s \<Longrightarrow>
   status (check_and_control_relay now s) =
     (if is_on_schedule now (start_time s) (end_time s) then ON else OFF)"
  by (cases "status s") (simp_all add: check_and_control_relay_def)

lemma tick_under_override:
  "manual_override s \<Longrightarrow> check_and_control_relay now s = s"
  by (simp add: check_and_control_relay_def)

lemma ticks_under_override:
  "manual_override s \<Longrightarrow> run fmt (map Tick nows) s = s"
  by (induction nows) (simp_all add: run_def tick_under_override)

lemma tick_gpio:
  "gpio (check_and_control_relay now s) =
     (if manual_override s \<or>
         is_on_schedule now (start_time s) (end_time s) = (status s = ON)
      then gpio s
      else gpio s @ [if is_on_schedule now (start_time s) (end_time s) then LOW else HIGH])"
  by (cases "status s") (simp_all add: check_and_control_relay_def)

lemma tick_twice:
  "check_and_control_relay now (check_and_control_relay now s) = check_and_control_relay now s"
  by (cases "status s") (simp_all add: check_and_control_relay_def)

lemma tick_frame:
  "start_time (check_and_control_relay now s) = start_time s"
  "end_time (check_and_control_relay now s) = end_time s"
  "manual_override (check_and_control_relay now s) = manual_override s"
  "temperature (check_and_control_relay now s) = temperature s"
  "humidity (check_and_control_relay now s) = humidity s"
  by (simp_all add: check_and_control_relay_def)

lemma manual_command_eq:
  "manual_command x s =
     (if status s = x then s
      else s\<lparr>gpio := gpio s @ [case x of ON \<Rightarrow> LOW | OFF \<Rightarrow> HIGH],
             status := x, manual_override := True\<rparr>)"
  by (cases x) (simp_all add: manual_command_def turn_on_now_def turn_off_now_def st_button_def)

lemma resume_schedule_eq:
  "resume_schedule True s = s\<lparr>manual_override := False\<rparr>"
  by (cases s) (simp add: resume_schedule_def st_button_def)

lemma update_schedule_eq:
  "update_schedule True a b now s =
     check_and_control_relay now
       (s\<lparr>start_time := a, end_time := b, manual_override := False\<rparr>)"
  by (cases s) (simp add: update_schedule_def st_button_def Let_def)

subsection \<open>The sensor\<close>

lemma handle_exception_keeps:
  "handle_exception e s = Inr s' \<Longrightarrow> s' = s"
  by (cases "(e, s)" rule: handle_exception.cases) simp_all

lemma handle_exception_with_message:
  "e \<noteq> RuntimeError [] \<Longrightarrow> handle_exception e s = Inr s"
  by (cases "(e, s)" rule: handle_exception.cases) simp_all

lemma read_sensor_data_relay:
  "read_sensor_data fmt d s = Inr s' \<Longrightarrow>
   status s' = status s \<and> gpio s' = gpio s \<and> manual_override s' = manual_override s \<and>
   start_time s' = start_time s \<and> end_time s' = end_time s"
  by (cases d)
    (auto split: attempt.splits if_splits dest: handle_exception_keeps)

subsection \<open>Status and pin\<close>

lemma status_matches_pin_last:
  "status_matches_pin s =
     (gpio s \<noteq> [] \<and> last (gpio s) = (case status s of ON \<Rightarrow> LOW | OFF \<Rightarrow> HIGH))"
  by (simp add: status_matches_pin_def pin_level_def)

lemma status_matches_pin_initial: "status_matches_pin initial_session"
  by (simp add: status_matches_pin_last initial_session_def setup_gpio_def)

lemma status_matches_pin_tick:
  "status_matches_pin s \<Longrightarrow> status_matches_pin (check_and_control_relay now s)"
  by (cases "status s")
    (auto simp: status_matches_pin_last check_and_control_relay_def)

lemma status_matches_pin_manual:
  "status_matches_pin s \<Longrightarrow> status_matches_pin (manual_command x s)"
  by (cases x) (auto simp: manual_command_eq status_matches_pin_last)

lemma status_matches_pin_resume:
  "status_matches_pin s \<Longrightarrow> status_matches_pin (resume_schedule True s)"
  by (simp add: resume_schedule_eq status_matches_pin_last)

lemma status_matches_pin_update:
  "status_matches_pin s \<Longrightarrow> status_matches_pin (update_schedule True a b now s)"
  by (cases "status s")
    (auto simp: update_schedule_eq status_matches_pin_last check_and_control_relay_def)

lemma status_matches_pin_sensor:
  "status_matches_pin s \<Longrightarrow> read_sensor_data fmt d s = Inr s' \<Longrightarrow> status_matches_pin s'"
  using read_sensor_data_relay [of fmt d s s']
  by (simp add: status_matches_pin_last)

lemma status_matches_pin_step:
  "status_matches_pin s \<Longrightarrow> status_matches_pin (step fmt s e)"
  by (cases e)
    (auto simp: status_matches_pin_tick status_matches_pin_manual status_matches_pin_resume
      status_matches_pin_update split: sum.splits dest: status_matches_pin_sensor)

lemma status_matches_pin_run:
  "status_matches_pin s \<Longrightarrow> status_matches_pin (run fmt evs s)"
  unfolding run_def
  by (induction evs arbitrary: s) (simp_all add: status_matches_pin_step)

lemma status_matches_pin_iff:
  "status_matches_pin s \<Longrightarrow>
   (status s = ON) = (pin_level s = Some LOW) \<and> (status s = OFF) = (pin_level s = Some HIGH)"
  by (cases "status s") (auto simp: status_matches_pin_def)

lemma read_sensor_data_failure:
  "read_sensor_data fmt None s = Inr s"
  "temperature_get d = Raises e \<Longrightarrow> e \<noteq> RuntimeError [] \<Longrightarrow>
     read_sensor_data fmt (Some d) s = Inr s"
  "temperature_get d = Returns t \<Longrightarrow> humidity_get d = Raises e \<Longrightarrow> e \<noteq> RuntimeError [] \<Longrightarrow>
     read_sensor_data fmt (Some d) s = Inr s"
  by (simp_all add: handle_exception_with_message)

lemma read_sensor_data_both:
  "temperature_get d = Returns (Some a) \<Longrightarrow> humidity_get d = Returns (Some b) \<Longrightarrow>
   read_sensor_data fmt (Some d) s =
     Inr (s\<lparr>temperature := fmt a @ [CHR 0xC2, CHR 0xB0] @ ''C'', humidity := fmt b @ ''%''\<rparr>)"
  by simp

section \<open>The claims\<close>

text \<open>
  C1: with the override set, a tick is a no-op: it writes nothing to the pin and leaves
  the status, the override and the window as they are. Hence after a manual command that
  was carried out, any number of ticks, at any times, leave the whole session as the
  command left it.
\<close>

theorem tick_noop_under_override:
  "(manual_override s \<longrightarrow>
      check_and_control_relay now s = s \<and> run fmt (map Tick nows) s = s) \<and>
   (status s \<noteq> x \<longrightarrow>
      manual_override (manual_command x s) \<and>
      run fmt (map Tick nows) (manual_command x s) = manual_command x s)"
proof -
  have "manual_override (manual_command x s)" if "status s \<noteq> x"
    using that by (simp add: manual_command_eq)
  then show ?thesis
    by (simp add: tick_under_override ticks_under_override)
qed

theorem tick_noop_under_override_witness:
  "status (initial_session\<lparr>status := ON, gpio := [HIGH, LOW]\<rparr>) \<noteq> OFF \<and>
   manual_override (manual_command OFF (initial_session\<lparr>status := ON, gpio := [HIGH, LOW]\<rparr>)) \<and>
   run (\<lambda>v::nat. ''25'') (map Tick [dt_time 6 0, dt_time 7 0])
       (manual_command OFF (initial_session\<lparr>status := ON, gpio := [HIGH, LOW]\<rparr>)) =
     manual_command OFF (initial_session\<lparr>status := ON, gpio := [HIGH, LOW]\<rparr>) \<and>
   status (manual_command OFF (initial_session\<lparr>status := ON, gpio := [HIGH, LOW]\<rparr>)) = OFF \<and>
   is_on_schedule (dt_time 6 0) (dt_time 5 30) (dt_time 9 30)"
proof -
  have h: "status (initial_session\<lparr>status := ON, gpio := [HIGH, LOW]\<rparr>) \<noteq> OFF"
    by simp
  have on: "is_on_schedule (dt_time 6 0) (dt_time 5 30) (dt_time 9 30)"
    by (simp add: is_on_schedule_def dt_time_def)
  from h on
    tick_noop_under_override
      [of "initial_session\<lparr>status := ON, gpio := [HIGH, LOW]\<rparr>" "dt_time 6 0"
          "\<lambda>v::nat. ''25''" "[dt_time 6 0, dt_time 7 0]" OFF]
  show ?thesis
    by (simp add: manual_command_eq)
qed

text \<open>
  C2: whatever the override was, pressing Update Schedule stores the new bounds, clears
  the override and runs one tick at once, so that afterwards the status is the scheduled
  value of the new window at that time.
\<close>

theorem update_schedule_resyncs:
  "update_schedule True a b now s =
     check_and_control_relay now (s\<lparr>start_time := a, end_time := b, manual_override := False\<rparr>) \<and>
   start_time (update_schedule True a b now s) = a \<and>
   end_time (update_schedule True a b now s) = b \<and>
   manual_override (update_schedule True a b now s) = False \<and>
   status (update_schedule True a b now s) = (if is_on_schedule now a b then ON else OFF)"
  by (simp add: update_schedule_eq tick_frame tick_status)

theorem update_schedule_resyncs_witness:
  "update_schedule True (dt_time 22 0) (dt_time 6 0) (dt_time 12 0)
     (manual_command ON initial_session) =
   \<lparr>start_time = dt_time 22 0, end_time = dt_time 6 0, status = OFF,
    temperature = ''N/A'', humidity = ''N/A'', manual_override = False,
    gpio = [HIGH, LOW, HIGH]\<rparr>"
  using update_schedule_resyncs
    [of "dt_time 22 0" "dt_time 6 0" "dt_time 12 0" "manual_command ON initial_session"]
  by (simp add: manual_command_eq initial_session_def setup_gpio_def
      check_and_control_relay_def is_on_schedule_def dt_time_def)

text \<open>
  C3, as stated (a manual command sets the override, writes the pin and sets the status
  in every state, also when the status already has the commanded value), fails on the
  code: each of the two buttons is disabled while the status has its value (lines 158 and
  167). After the scheduled tick of 06:00 has switched the relay on, Turn ON Now does
  nothing: the override stays clear and nothing is written to the pin.
\<close>

theorem manual_command_counterexample:
  "status (check_and_control_relay (dt_time 6 0) initial_session) = ON \<and>
   manual_command ON (check_and_control_relay (dt_time 6 0) initial_session) =
     check_and_control_relay (dt_time 6 0) initial_session \<and>
   \<not> manual_override (manual_command ON (check_and_control_relay (dt_time 6 0) initial_session)) \<and>
   gpio (manual_command ON (check_and_control_relay (dt_time 6 0) initial_session)) =
     gpio (check_and_control_relay (dt_time 6 0) initial_session)"
  by (simp add: manual_command_eq check_and_control_relay_def is_on_schedule_def
      initial_session_def dt_time_def)

text \<open>
  C3, amended: in every state whose status differs from the commanded value, the manual
  command sets the override, writes the matching level to the pin (LOW for ON, HIGH for
  OFF) and sets the status to the commanded value; in a state whose status already has
  that value the button is disabled and the session stays as it is.
\<close>

theorem manual_command_when_enabled:
  "(status s \<noteq> x \<longrightarrow>
      manual_command x s =
        s\<lparr>gpio := gpio s @ [case x of ON \<Rightarrow> LOW | OFF \<Rightarrow> HIGH],
          status := x, manual_override := True\<rparr>) \<and>
   (status s = x \<longrightarrow> manual_command x s = s)"
  by (simp add: manual_command_eq)

theorem manual_command_when_enabled_witness:
  "status (initial_session\<lparr>start_time := dt_time 9 0, end_time := dt_time 17 0,
                           status := ON, gpio := [HIGH, LOW]\<rparr>) \<noteq> OFF \<and>
   manual_command OFF
     (initial_session\<lparr>start_time := dt_time 9 0, end_time := dt_time 17 0,
                      status := ON, gpio := [HIGH, LOW]\<rparr>) =
   \<lparr>start_time = dt_time 9 0, end_time = dt_time 17 0, status = OFF,
    temperature = ''N/A'', humidity = ''N/A'', manual_override = True,
    gpio = [HIGH, LOW, HIGH]\<rparr>"
  using manual_command_when_enabled
    [of "initial_session\<lparr>start_time := dt_time 9 0, end_time := dt_time 17 0,
                          status := ON, gpio := [HIGH, LOW]\<rparr>" OFF]
  by (simp add: initial_session_def)

text \<open>
  C4: for an overnight window (start after end) the schedule is on exactly when the time
  is at or after the start or before the end, and a tick without override leaves the
  status ON exactly then.
\<close>

theorem overnight_window:
  "start > end \<Longrightarrow>
   is_on_schedule now start end = (now \<ge> start \<or> now < end) \<and>
   (status (check_and_control_relay now
      (s\<lparr>start_time := start, end_time := end, manual_override := False\<rparr>)) = ON) =
     (now \<ge> start \<or> now < end)"
  by (simp add: tick_status is_on_schedule_overnight)

theorem overnight_window_witness:
  "dt_time 22 0 > dt_time 6 0 \<and>
   is_on_schedule (dt_time 23 0) (dt_time 22 0) (dt_time 6 0) \<and>
   status (check_and_control_relay (dt_time 23 0)
     (initial_session\<lparr>start_time := dt_time 22 0, end_time := dt_time 6 0,
                      manual_override := False\<rparr>)) = ON"
proof -
  have h: "dt_time 22 0 > dt_time 6 0"
    by (simp add: dt_time_def)
  have n: "dt_time 23 0 \<ge> dt_time 22 0"
    by (simp add: dt_time_def)
  from overnight_window [OF h, of "dt_time 23 0" initial_session] h n
  show ?thesis by simp
qed

text \<open>
  C5: for a same-day window (start not after end) the schedule is on exactly when the
  time is at or after the start and before the end, and a tick without override leaves
  the status ON exactly then; when start and end are equal the schedule is off at every
  time and the tick leaves the status OFF.
\<close>

theorem same_day_window:
  "start \<le> end \<Longrightarrow>
   is_on_schedule now start end = (start \<le> now \<and> now < end) \<and>
   (status (check_and_control_relay now
      (s\<lparr>start_time := start, end_time := end, manual_override := False\<rparr>)) = ON) =
     (start \<le> now \<and> now < end) \<and>
   \<not> is_on_schedule now start start \<and>
   status (check_and_control_relay now
      (s\<lparr>start_time := start, end_time := start, manual_override := False\<rparr>)) = OFF"
  by (auto simp: tick_status is_on_schedule_same_day)

theorem same_day_window_witness:
  "dt_time 9 0 \<le> dt_time 17 0 \<and>
   is_on_schedule (dt_time 10 0) (dt_time 9 0) (dt_time 17 0) \<and>
   status (check_and_control_relay (dt_time 10 0)
     (initial_session\<lparr>start_time := dt_time 9 0, end_time := dt_time 17 0,
                      manual_override := False\<rparr>)) = ON \<and>
   \<not> is_on_schedule (dt_time 10 0) (dt_time 9 0) (dt_time 9 0)"
proof -
  have h: "dt_time 9 0 \<le> dt_time 17 0"
    by (simp add: dt_time_def)
  have n: "dt_time 9 0 \<le> dt_time 10 0 \<and> dt_time 10 0 < dt_time 17 0"
    by (simp add: dt_time_def)
  from same_day_window [OF h, of "dt_time 10 0" initial_session] h n
  show ?thesis by simp
qed

text \<open>
  C6: without override, a second tick at the same time changes nothing after the first:
  the session after two ticks, its pin trace and its status included, is the session
  after one. A tick writes to the pin only when the scheduled value differs from the
  status, and then once.
\<close>

theorem tick_idempotent:
  "\<not> manual_override s \<Longrightarrow>
   check_and_control_relay now (check_and_control_relay now s) = check_and_control_relay now s \<and>
   gpio (check_and_control_relay now (check_and_control_relay now s)) =
     gpio (check_and_control_relay now s) \<and>
   status (check_and_control_relay now (check_and_control_relay now s)) =
     status (check_and_control_relay now s) \<and>
   gpio (check_and_control_relay now s) =
     (if is_on_schedule now (start_time s) (end_time s) = (status s = ON) then gpio s
      else gpio s @ [if is_on_schedule now (start_time s) (end_time s) then LOW else HIGH])"
  by (simp add: tick_twice tick_gpio)

theorem tick_idempotent_witness:
  "\<not> manual_override (initial_session\<lparr>start_time := dt_time 9 0, end_time := dt_time 17 0\<rparr>) \<and>
   gpio (check_and_control_relay (dt_time 10 0)
     (initial_session\<lparr>start_time := dt_time 9 0, end_time := dt_time 17 0\<rparr>)) = [HIGH, LOW] \<and>
   gpio (check_and_control_relay (dt_time 10 0) (check_and_control_relay (dt_time 10 0)
     (initial_session\<lparr>start_time := dt_time 9 0, end_time := dt_time 17 0\<rparr>))) = [HIGH, LOW] \<and>
   status (check_and_control_relay (dt_time 10 0) (check_and_control_relay (dt_time 10 0)
     (initial_session\<lparr>start_time := dt_time 9 0, end_time := dt_time 17 0\<rparr>))) = ON"
proof -
  have h: "\<not> manual_override
      (initial_session\<lparr>start_time := dt_time 9 0, end_time := dt_time 17 0\<rparr>)"
    by (simp add: initial_session_def)
  from tick_idempotent [OF h, of "dt_time 10 0"] h
  show ?thesis
    by (simp add: check_and_control_relay_def is_on_schedule_def initial_session_def
        setup_gpio_def dt_time_def)
qed

text \<open>
  C7: pressing Resume Automated Schedule clears the override and nothing else: the
  status, the window, the sensor readings and the pin trace stay as they were.
\<close>

theorem resume_schedule_only_clears_override:
  "resume_schedule True s = s\<lparr>manual_override := False\<rparr> \<and>
   \<not> manual_override (resume_schedule True s) \<and>
   status (resume_schedule True s) = status s \<and>
   start_time (resume_schedule True s) = start_time s \<and>
   end_time (resume_schedule True s) = end_time s \<and>
   gpio (resume_schedule True s) = gpio s"
  by (simp add: resume_schedule_eq)

theorem resume_schedule_only_clears_override_witness:
  "resume_schedule True (manual_command ON initial_session) =
   \<lparr>start_time = dt_time 5 30, end_time = dt_time 9 30, status = ON,
    temperature = ''N/A'', humidity = ''N/A'', manual_override = False,
    gpio = [HIGH, LOW]\<rparr>"
  using resume_schedule_only_clears_override [of "manual_command ON initial_session"]
  by (simp add: manual_command_eq initial_session_def setup_gpio_def)

text \<open>
  C8 (no exception leaves a failed read) does not hold where the device raises a
  \<^verbatim>\<open>RuntimeError\<close> without arguments, on either of the two reads: the handler of line
  82 raises \<^verbatim>\<open>IndexError\<close>, which leaves \<^verbatim>\<open>read_sensor_data\<close>.
\<close>

theorem read_sensor_data_bare_runtime_error:
  "read_sensor_data fmt
     (Some \<lparr>temperature_get = Raises (RuntimeError []), humidity_get = h\<rparr>) s =
     Inl IndexError \<and>
   read_sensor_data fmt
     (Some \<lparr>temperature_get = Returns t, humidity_get = Raises (RuntimeError [])\<rparr>) s =
     Inl IndexError"
  by simp

theorem read_sensor_data_bare_runtime_error_witness:
  "read_sensor_data (\<lambda>v::nat. ''25'')
     (Some \<lparr>temperature_get = Raises (RuntimeError []), humidity_get = Returns (Some 40)\<rparr>)
     initial_session = Inl IndexError"
  using read_sensor_data_bare_runtime_error
    [of "\<lambda>v::nat. ''25''" "Returns (Some 40)" initial_session]
  by simp

text \<open>
  C9: when both reads return and at least one of the two values is \<^verbatim>\<open>None\<close>, the
  session comes back unchanged: neither the temperature nor the humidity is stored.
\<close>

theorem read_sensor_data_joint:
  "temperature_get d = Returns t \<Longrightarrow> humidity_get d = Returns h \<Longrightarrow> t = None \<or> h = None \<Longrightarrow>
   read_sensor_data fmt (Some d) s = Inr s"
  by auto

theorem read_sensor_data_joint_witness:
  "read_sensor_data (\<lambda>v::nat. ''25'')
     (Some \<lparr>temperature_get = Returns (Some 25), humidity_get = Returns None\<rparr>)
     initial_session = Inr initial_session \<and>
   temperature initial_session = ''N/A'' \<and> humidity initial_session = ''N/A''"
  using read_sensor_data_joint
    [of "\<lparr>temperature_get = Returns (Some 25), humidity_get = Returns None\<rparr>"
        "Some (25::nat)" None "\<lambda>v::nat. ''25''" initial_session]
  by (simp add: initial_session_def)

text \<open>
  C10: the session starts with the pin driven HIGH and the status OFF, every event keeps
  the status matching the pin, and so after any sequence of events the status is ON
  exactly when the level last written to the pin is LOW, and OFF exactly when it is HIGH.
\<close>

theorem status_follows_pin:
  "pin_level initial_session = Some HIGH \<and> status initial_session = OFF \<and>
   (status_matches_pin s \<longrightarrow> status_matches_pin (step fmt s e)) \<and>
   (status (run fmt evs initial_session) = ON) =
     (pin_level (run fmt evs initial_session) = Some LOW) \<and>
   (status (run fmt evs initial_session) = OFF) =
     (pin_level (run fmt evs initial_session) = Some HIGH)"
proof -
  have "status_matches_pin (run fmt evs initial_session)"
    by (rule status_matches_pin_run [OF status_matches_pin_initial])
  from status_matches_pin_iff [OF this] show ?thesis
    by (simp add: status_matches_pin_step pin_level_def initial_session_def setup_gpio_def)
qed

theorem status_follows_pin_witness:
  "status_matches_pin initial_session \<and>
   status_matches_pin (step (\<lambda>v::nat. ''25'') initial_session (Tick (dt_time 6 0))) \<and>
   status (run (\<lambda>v::nat. ''25'')
     [Tick (dt_time 6 0), ManualCommand OFF, SensorRead None, ResumeSchedule,
      UpdateSchedule (dt_time 22 0) (dt_time 6 0) (dt_time 23 0)] initial_session) = ON \<and>
   pin_level (run (\<lambda>v::nat. ''25'')
     [Tick (dt_time 6 0), ManualCommand OFF, SensorRead None, ResumeSchedule,
      UpdateSchedule (dt_time 22 0) (dt_time 6 0) (dt_time 23 0)] initial_session) = Some LOW"
proof -
  have i: "status_matches_pin initial_session"
    by (simp add: status_matches_pin_def pin_level_def initial_session_def setup_gpio_def)
  have r: "status (run (\<lambda>v::nat. ''25'')
     [Tick (dt_time 6 0), ManualCommand OFF, SensorRead None, ResumeSchedule,
      UpdateSchedule (dt_time 22 0) (dt_time 6 0) (dt_time 23 0)] initial_session) = ON"
    by (simp add: run_def manual_command_eq resume_schedule_eq update_schedule_eq
        check_and_control_relay_def is_on_schedule_def initial_session_def dt_time_def)
  from status_follows_pin
    [of initial_session "\<lambda>v::nat. ''25''" "Tick (dt_time 6 0)"
        "[Tick (dt_time 6 0), ManualCommand OFF, SensorRead None, ResumeSchedule,
          UpdateSchedule (dt_time 22 0) (dt_time 6 0) (dt_time 23 0)]"] i r
  show ?thesis by simp
qed

end
